theory Spec2Isabelle
  imports Complex_Main "HOL-Library.Char_ord" "HOL-Library.List_Lexorder"
    "HOL-Library.Multiset"
begin

section \<open>Python values and slices\<close>

text \<open>
  The repository is Python. Its integers are unbounded (\<open>int\<close>), its strings are
  \<open>string\<close>, its lists are HOL lists. A slice \<open>xs[k:]\<close> with a negative \<open>k\<close> counts
  from the end and clamps at the start of the list; \<open>xs[:k]\<close> likewise.
\<close>

definition slice_from :: "int \<Rightarrow> 'a list \<Rightarrow> 'a list" where
  "slice_from k xs =
     (if k < 0 then drop (nat (int (length xs) + k)) xs else drop (nat k) xs)"

definition slice_to :: "int \<Rightarrow> 'a list \<Rightarrow> 'a list" where
  "slice_to k xs =
     (if k < 0 then take (nat (int (length xs) + k)) xs else take (nat k) xs)"

section \<open>The conversation buffer (assistant.py)\<close>

text \<open>
  \<^verbatim>\<open>
  def _trim_history(self):
      if len(self.history) > self.max_history * 2:
          self.history = self.history[-self.max_history * 2 :]
  \<close>
  The state it touches is the pair of \<open>max_history\<close> and \<open>history\<close>; the function
  returns the new history. \<open>-self.max_history * 2\<close> is \<open>(-max_history) * 2\<close>.
\<close>

definition trim_history :: "int \<Rightarrow> 'a list \<Rightarrow> 'a list" where
  "trim_history max_history history =
     (if int (length history) > max_history * 2
      then slice_from (- max_history * 2) history
      else history)"


section \<open>Values, errors and the outside world (memory.py)\<close>

text \<open>
  A document handed to the store is a Python value: the text of a memory, or whatever
  \<open>json.loads\<close> returned during migration. Floats are left out of the values.
\<close>

datatype pyval =
    PNone
  | PBool bool
  | PInt int
  | PStr string
  | PList "pyval list"
  | PDict "(string \<times> pyval) list"

text \<open>
  Every exception the modelled code can raise is a value. \<open>_get_embedding\<close> raises a plain
  \<open>Exception\<close> with one of two messages; the message of the first is kept as a
  constructor of its own, the second carries the text of the upstream error.
\<close>

datatype error =
    ApiKeyUnset
  | EmbeddingFailed string
  | JSONDecodeError
  | TypeError
  | IndexError
  | NotFound
  | AlreadyExists
  | StorageError

text \<open>
  A metadata dictionary maps keys to values. Every value this repository writes into one
  is a string (the role, the ISO timestamp, the type, the file path, the language, and the
  \<open>{"type": ...}\<close> of its callers), so values are strings here.
\<close>

type_synonym meta_dict = "string \<rightharpoonup> string"

text \<open>\<open>x or {}\<close> for an optional dictionary.\<close>

definition or_empty :: "meta_dict option \<Rightarrow> meta_dict" where
  "or_empty metadata = (case metadata of None \<Rightarrow> Map.empty | Some m \<Rightarrow> m)"

text \<open>The truth value of an optional string: \<open>None\<close> and \<open>""\<close> are false.\<close>

definition truthy :: "string option \<Rightarrow> bool" where
  "truthy x = (case x of None \<Rightarrow> False | Some t \<Rightarrow> t \<noteq> [])"

text \<open>List indexing that raises \<open>IndexError\<close> out of range (indices here are never negative).\<close>

definition py_index :: "'a list \<Rightarrow> nat \<Rightarrow> error + 'a" where
  "py_index xs i = (if i < length xs then Inr (xs ! i) else Inl IndexError)"

text \<open>
  \<open>str.upper\<close> on ASCII text: the letters \<open>a\<close> to \<open>z\<close> become \<open>A\<close> to \<open>Z\<close>, every other
  character stays. Strings are bytes here, and letters outside ASCII are outside the model.
\<close>

definition upper_char :: "char \<Rightarrow> char" where
  "upper_char c =
     (let n = (of_char c :: nat) in if 97 \<le> n \<and> n \<le> 122 then char_of (n - 32) else c)"

definition upper :: "string \<Rightarrow> string" where
  "upper t = map upper_char t"

text \<open>
  \<open>json.loads\<close> belongs to Python's standard library, not to the repository: the decoder
  of strings is a parameter \<open>loads\<close>, with \<open>None\<close> for a \<open>JSONDecodeError\<close>. Applied to a
  value that is not a string, \<open>json.loads\<close> raises \<open>TypeError\<close>.
\<close>

definition json_loads :: "(string \<Rightarrow> pyval option) \<Rightarrow> pyval \<Rightarrow> error + pyval" where
  "json_loads loads doc =
     (case doc of
        PStr t \<Rightarrow> (case loads t of None \<Rightarrow> Inl JSONDecodeError | Some v \<Rightarrow> Inr v)
      | _ \<Rightarrow> Inl TypeError)"

section \<open>The vector store\<close>

text \<open>
  The store is the \<open>chromadb\<close> package, which is not part of the repository. A record holds
  an id, an embedding (absent when \<open>add\<close> was called without embeddings), a document and a
  metadata dictionary; a collection holds its configuration and its records in insertion
  order; the persistent client maps collection names to collections. What is stored
  under \<open>persist_dir\<close> between two runs of the program is a value of type \<open>client\<close>.
\<close>

record 'v memrec =
  rec_id :: string
  rec_embedding :: "'v option"
  rec_document :: pyval
  rec_metadata :: meta_dict

record 'v coll =
  coll_metadata :: meta_dict
  coll_records :: "'v memrec list"

type_synonym 'v client_state = "string \<rightharpoonup> 'v coll"

text \<open>The configuration \<open>{"hnsw:space": "cosine"}\<close> the repository creates its collection with.\<close>

definition cosine :: meta_dict where
  "cosine = [''hnsw:space'' \<mapsto> ''cosine'']"

text \<open>
  Modelled from the spec: the operations of the client and of a collection follow the
  VectorStore contract of section 4.1 (insert appends, a full scan returns the records in
  insertion order, a reset leaves an empty collection with its name and metric).
  Deleting a collection that does not exist and creating one that exists raise.
\<close>

definition delete_collection :: "string \<Rightarrow> 'v client_state \<Rightarrow> error + 'v client_state" where
  "delete_collection name c =
     (case c name of None \<Rightarrow> Inl NotFound | Some _ \<Rightarrow> Inr (c(name := None)))"

definition create_collection ::
  "string \<Rightarrow> meta_dict \<Rightarrow> 'v client_state \<Rightarrow> error + 'v client_state" where
  "create_collection name metadata c =
     (case c name of
        None \<Rightarrow> Inr (c(name \<mapsto> \<lparr>coll_metadata = metadata, coll_records = []\<rparr>))
      | Some _ \<Rightarrow> Inl AlreadyExists)"

definition get_or_create_collection ::
  "string \<Rightarrow> meta_dict \<Rightarrow> 'v client_state \<Rightarrow> 'v client_state" where
  "get_or_create_collection name metadata c =
     (case c name of
        None \<Rightarrow> c(name \<mapsto> \<lparr>coll_metadata = metadata, coll_records = []\<rparr>)
      | Some _ \<Rightarrow> c)"

text \<open>
  A \<open>VectorMemory\<close> object: its client and its collection handle. The handle is the name of
  the collection; an operation through a handle whose collection is gone raises.
\<close>

record 'v VectorMemory =
  client :: "'v client_state"
  collection :: string

text \<open>The answer of \<open>collection.get()\<close>: parallel lists, one entry per record.\<close>

record get_result =
  ids :: "string list"
  documents :: "pyval list"
  metadatas :: "meta_dict list"

definition coll_get :: "'v VectorMemory \<Rightarrow> error + get_result" where
  "coll_get s =
     (case client s (collection s) of
        None \<Rightarrow> Inl NotFound
      | Some col \<Rightarrow>
          Inr \<lparr>ids = map rec_id (coll_records col),
               documents = map rec_document (coll_records col),
               metadatas = map rec_metadata (coll_records col)\<rparr>)"

text \<open>
  Modelled from the spec: \<open>collection.add\<close> appends one record per id. The checks the
  store itself makes on an insertion (the dimensionality of the vectors, the types it
  admits as documents) are the parameter \<open>accepts\<close>; a refused insertion raises and stores
  nothing.
\<close>

definition make_records ::
  "'v list option \<Rightarrow> pyval list \<Rightarrow> meta_dict list \<Rightarrow> string list \<Rightarrow> 'v memrec list" where
  "make_records embeddings docs metas idents =
     map (\<lambda>i. \<lparr>rec_id = idents ! i,
                rec_embedding = (case embeddings of None \<Rightarrow> None | Some es \<Rightarrow> Some (es ! i)),
                rec_document = docs ! i,
                rec_metadata = metas ! i\<rparr>) [0..<length idents]"

definition coll_add ::
  "('v coll \<Rightarrow> 'v memrec list \<Rightarrow> bool) \<Rightarrow> 'v list option \<Rightarrow> pyval list \<Rightarrow> meta_dict list
     \<Rightarrow> string list \<Rightarrow> 'v VectorMemory \<Rightarrow> error + 'v VectorMemory" where
  "coll_add accepts embeddings docs metas idents s =
     (case client s (collection s) of
        None \<Rightarrow> Inl NotFound
      | Some col \<Rightarrow>
          if length docs = length idents \<and> length metas = length idents
             \<and> (case embeddings of None \<Rightarrow> True | Some es \<Rightarrow> length es = length idents)
             \<and> accepts col (make_records embeddings docs metas idents)
          then Inr (s\<lparr>client := (client s)(collection s \<mapsto>
                  col\<lparr>coll_records :=
                        coll_records col @ make_records embeddings docs metas idents\<rparr>)\<rparr>)
          else Inl StorageError)"

text \<open>
  Modelled from the spec: \<open>collection.query\<close> for one query vector returns up to
  \<open>n_results\<close> records whose metadata matches every constraint of \<open>where\<close>, by ascending
  distance. The distance of a stored record from the query vector is the parameter
  \<open>dist_of\<close>. The answer holds one list per query vector.
\<close>

record 'n query_result =
  qr_documents :: "pyval list list"
  qr_metadatas :: "meta_dict list list"
  qr_distances :: "'n list list"

definition matches :: "(string \<times> string) list \<Rightarrow> meta_dict \<Rightarrow> bool" where
  "matches where_clause meta = list_all (\<lambda>(k, v). meta k = Some v) where_clause"

definition coll_query ::
  "('v memrec \<Rightarrow> 'v \<Rightarrow> 'n::linorder) \<Rightarrow> 'v \<Rightarrow> int \<Rightarrow> (string \<times> string) list
     \<Rightarrow> 'v VectorMemory \<Rightarrow> error + 'n query_result" where
  "coll_query dist_of query_embedding n_results where_clause s =
     (case client s (collection s) of
        None \<Rightarrow> Inl NotFound
      | Some col \<Rightarrow>
          (let hits = take (nat n_results)
                        (sort_key (\<lambda>r. dist_of r query_embedding)
                           (filter (\<lambda>r. matches where_clause (rec_metadata r))
                              (coll_records col)))
           in Inr \<lparr>qr_documents = [map rec_document hits],
                   qr_metadatas = [map rec_metadata hits],
                   qr_distances = [map (\<lambda>r. dist_of r query_embedding) hits]\<rparr>))"

section \<open>The memory ledger (memory.py, class VectorMemory)\<close>

text \<open>
  Each method takes the object \<open>s\<close> and returns what it returns or raises, together with
  the object afterwards; a method that only reads returns its result alone.
\<close>

subsection \<open>Migration\<close>

text \<open>\<open>isinstance(first_doc, str) and first_doc.startswith("{")\<close>\<close>

definition legacy :: "pyval \<Rightarrow> bool" where
  "legacy first_doc =
     (case first_doc of PStr t \<Rightarrow> take 1 t = ''{'' | _ \<Rightarrow> False)"

text \<open>
  The loop of \<open>_migrate_if_needed\<close> over \<open>enumerate(docs["documents"])\<close>: it decodes each
  document and appends to the three new lists; the first document that does not decode
  ends it with the exception.
\<close>

fun migrate_rows ::
  "(string \<Rightarrow> pyval option) \<Rightarrow> get_result \<Rightarrow> nat list
     \<Rightarrow> pyval list \<times> meta_dict list \<times> string list
     \<Rightarrow> error + (pyval list \<times> meta_dict list \<times> string list)" where
  "migrate_rows loads docs [] acc = Inr acc"
| "migrate_rows loads docs (i # rest) (new_docs, new_metadatas, new_ids) =
     (case json_loads loads (documents docs ! i) of
        Inl e \<Rightarrow> Inl e
      | Inr content \<Rightarrow>
          migrate_rows loads docs rest
            (new_docs @ [content], new_metadatas @ [metadatas docs ! i],
             new_ids @ [ids docs ! i]))"

definition migrate_if_needed ::
  "(string \<Rightarrow> pyval option) \<Rightarrow> ('v coll \<Rightarrow> 'v memrec list \<Rightarrow> bool) \<Rightarrow> 'v VectorMemory
     \<Rightarrow> (error + unit) \<times> 'v VectorMemory" where
  "migrate_if_needed loads accepts s =
     (case coll_get s of
        Inl e \<Rightarrow> (Inl e, s)
      | Inr docs \<Rightarrow>
          (case documents docs of
             [] \<Rightarrow> (Inr (), s)
           | first_doc # _ \<Rightarrow>
               if legacy first_doc then
                 (case migrate_rows loads docs [0..<length (documents docs)] ([], [], []) of
                    Inl e \<Rightarrow> (Inl e, s)
                  | Inr (new_docs, new_metadatas, new_ids) \<Rightarrow>
                      (case delete_collection (collection s) (client s) of
                         Inl e \<Rightarrow> (Inl e, s)
                       | Inr c1 \<Rightarrow>
                           (case create_collection (collection s) cosine c1 of
                              Inl e \<Rightarrow> (Inl e, s\<lparr>client := c1\<rparr>)
                            | Inr c2 \<Rightarrow>
                                (case coll_add accepts None new_docs new_metadatas new_ids
                                        (s\<lparr>client := c2\<rparr>) of
                                   Inl e \<Rightarrow> (Inl e, s\<lparr>client := c2\<rparr>)
                                 | Inr s3 \<Rightarrow> (Inr (), s3)))))
               else (Inr (), s)))"

subsection \<open>Construction\<close>

text \<open>
  \<open>__init__\<close> opens the client on what is stored under \<open>persist_dir\<close> (the argument \<open>c0\<close>),
  tries to delete the collection and passes over any exception of the deletion, gets or
  creates the collection, and runs the migration.
\<close>

definition VectorMemory_init ::
  "(string \<Rightarrow> pyval option) \<Rightarrow> ('v coll \<Rightarrow> 'v memrec list \<Rightarrow> bool) \<Rightarrow> string
     \<Rightarrow> 'v client_state \<Rightarrow> (error + unit) \<times> 'v VectorMemory" where
  "VectorMemory_init loads accepts collection_name c0 =
     (let c1 = (case delete_collection collection_name c0 of Inl _ \<Rightarrow> c0 | Inr c \<Rightarrow> c);
          c2 = get_or_create_collection collection_name cosine c1
      in migrate_if_needed loads accepts \<lparr>client = c2, collection = collection_name\<rparr>)"

subsection \<open>Embedding\<close>

text \<open>
  \<open>_get_embedding\<close> reads the environment (\<open>getenv\<close>) and calls the embeddings endpoint.
  \<open>create api_key text\<close> stands for the call \<open>client.embeddings.create(...)\<close> followed by
  \<open>response.data[0].embedding\<close>: the vector, or the text of the exception raised inside
  the \<open>try\<close>.
\<close>

definition get_embedding ::
  "(string \<rightharpoonup> string) \<Rightarrow> (string \<Rightarrow> string \<Rightarrow> string + 'v) \<Rightarrow> string \<Rightarrow> error + 'v" where
  "get_embedding getenv create text =
     (case getenv ''DASHSCOPE_API_KEY'' of
        None \<Rightarrow> Inl ApiKeyUnset
      | Some api_key \<Rightarrow>
          if api_key = [] then Inl ApiKeyUnset
          else (case create api_key text of
                  Inl msg \<Rightarrow> Inl (EmbeddingFailed (''OpenRouter embedding failed: '' @ msg))
                | Inr embedding \<Rightarrow> Inr embedding))"

subsection \<open>Storing\<close>

text \<open>
  \<open>uuid.uuid4()\<close> and \<open>datetime.now().isoformat()\<close> read the outside world: their values
  are the arguments \<open>memory_id\<close> and \<open>now\<close>. In \<open>{..., **(metadata or {})}\<close> the entries
  of the caller's dictionary come last and replace the stamped ones.
\<close>

definition store_memory ::
  "(string \<rightharpoonup> string) \<Rightarrow> (string \<Rightarrow> string \<Rightarrow> string + 'v)
     \<Rightarrow> ('v coll \<Rightarrow> 'v memrec list \<Rightarrow> bool) \<Rightarrow> string \<Rightarrow> string
     \<Rightarrow> string \<Rightarrow> string \<Rightarrow> meta_dict option \<Rightarrow> 'v VectorMemory
     \<Rightarrow> (error + string) \<times> 'v VectorMemory" where
  "store_memory getenv create accepts memory_id now role content metadata s =
     (let meta = [''role'' \<mapsto> role, ''timestamp'' \<mapsto> now, ''type'' \<mapsto> ''text'']
                   ++ or_empty metadata
      in case get_embedding getenv create content of
           Inl e \<Rightarrow> (Inl e, s)
         | Inr embedding \<Rightarrow>
             (case coll_add accepts (Some [embedding]) [PStr content] [meta] [memory_id] s of
                Inl e \<Rightarrow> (Inl e, s)
              | Inr s' \<Rightarrow> (Inr memory_id, s')))"

definition code_marker :: "string \<Rightarrow> string \<Rightarrow> string" where
  "code_marker language file_path =
     ''\<newline>\<newline># ['' @ upper language @ ''] CODE MEMORY: '' @ file_path @ ''\<newline>''"

definition store_code_memory ::
  "(string \<rightharpoonup> string) \<Rightarrow> (string \<Rightarrow> string \<Rightarrow> string + 'v)
     \<Rightarrow> ('v coll \<Rightarrow> 'v memrec list \<Rightarrow> bool) \<Rightarrow> string \<Rightarrow> string
     \<Rightarrow> string \<Rightarrow> string \<Rightarrow> string \<Rightarrow> string \<Rightarrow> meta_dict option \<Rightarrow> 'v VectorMemory
     \<Rightarrow> (error + string) \<times> 'v VectorMemory" where
  "store_code_memory getenv create accepts memory_id now role content file_path language
       metadata s =
     (let full_content = content @ code_marker language file_path;
          meta = [''role'' \<mapsto> role, ''timestamp'' \<mapsto> now, ''type'' \<mapsto> ''code'',
                  ''file_path'' \<mapsto> file_path, ''language'' \<mapsto> language]
                   ++ or_empty metadata
      in case get_embedding getenv create full_content of
           Inl e \<Rightarrow> (Inl e, s)
         | Inr embedding \<Rightarrow>
             (case coll_add accepts (Some [embedding]) [PStr full_content] [meta] [memory_id] s of
                Inl e \<Rightarrow> (Inl e, s)
              | Inr s' \<Rightarrow> (Inr memory_id, s')))"

subsection \<open>Searching\<close>

record entry =
  content :: pyval
  metadata :: meta_dict

record 'n scored = entry +
  distance :: 'n
  relevance_score :: 'n

text \<open>
  The loop of \<open>search_relevant_memories\<close> over \<open>enumerate(results["documents"][0])\<close>; \<open>i\<close>
  is the index of the document at the head of the list still to do.
\<close>

fun format_rows ::
  "('n::{one,minus}) query_result \<Rightarrow> nat \<Rightarrow> pyval list \<Rightarrow> error + 'n scored list" where
  "format_rows results i [] = Inr []"
| "format_rows results i (doc # rest) =
     (case py_index (qr_metadatas results) 0 of
        Inl e \<Rightarrow> Inl e
      | Inr metas \<Rightarrow>
     (case py_index metas i of
        Inl e \<Rightarrow> Inl e
      | Inr meta \<Rightarrow>
     (case py_index (qr_distances results) 0 of
        Inl e \<Rightarrow> Inl e
      | Inr dists \<Rightarrow>
     (case py_index dists i of
        Inl e \<Rightarrow> Inl e
      | Inr d \<Rightarrow>
     (case format_rows results (Suc i) rest of
        Inl e \<Rightarrow> Inl e
      | Inr memories \<Rightarrow>
          Inr (\<lparr>content = doc, metadata = meta, distance = d, relevance_score = 1 - d\<rparr>
                 # memories))))))"

definition where_clause_of :: "string option \<Rightarrow> string option \<Rightarrow> (string \<times> string) list" where
  "where_clause_of filter_role filter_type =
     (if truthy filter_role then [(''role'', the filter_role)] else [])
     @ (if truthy filter_type then [(''type'', the filter_type)] else [])"

definition search_relevant_memories ::
  "(string \<rightharpoonup> string) \<Rightarrow> (string \<Rightarrow> string \<Rightarrow> string + 'v)
     \<Rightarrow> ('v memrec \<Rightarrow> 'v \<Rightarrow> 'n::{linorder,one,minus})
     \<Rightarrow> string \<Rightarrow> int \<Rightarrow> string option \<Rightarrow> string option \<Rightarrow> 'v VectorMemory
     \<Rightarrow> error + 'n scored list" where
  "search_relevant_memories getenv create dist_of query top_k filter_role filter_type s =
     (case get_embedding getenv create query of
        Inl e \<Rightarrow> Inl e
      | Inr query_embedding \<Rightarrow>
          (case coll_query dist_of query_embedding top_k
                  (where_clause_of filter_role filter_type) s of
             Inl e \<Rightarrow> Inl e
           | Inr results \<Rightarrow>
               (case qr_documents results of
                  [] \<Rightarrow> Inr []
                | docs0 # _ \<Rightarrow> format_rows results 0 docs0)))"

subsection \<open>Recent memories\<close>

record recent = entry +
  timestamp :: string

text \<open>
  The filter loop of \<open>get_recent_memories\<close>, and \<open>sorted(..., reverse=True)\<close>: Python's sort
  is stable, and with \<open>reverse=True\<close> entries of equal key keep their order.
\<close>

fun recent_rows ::
  "string option \<Rightarrow> string option \<Rightarrow> get_result \<Rightarrow> nat list \<Rightarrow> recent list" where
  "recent_rows filter_role filter_type all_docs [] = []"
| "recent_rows filter_role filter_type all_docs (i # rest) =
     (let meta = metadatas all_docs ! i in
      if truthy filter_role \<and> meta ''role'' \<noteq> filter_role
        then recent_rows filter_role filter_type all_docs rest
      else if truthy filter_type \<and> meta ''type'' \<noteq> filter_type
        then recent_rows filter_role filter_type all_docs rest
      else \<lparr>content = documents all_docs ! i, metadata = meta,
             timestamp = (case meta ''timestamp'' of None \<Rightarrow> [] | Some t \<Rightarrow> t)\<rparr>
           # recent_rows filter_role filter_type all_docs rest)"

definition sorted_reverse :: "('a \<Rightarrow> 'k::linorder) \<Rightarrow> 'a list \<Rightarrow> 'a list" where
  "sorted_reverse key xs = rev (sort_key key (rev xs))"

definition get_recent_memories ::
  "int \<Rightarrow> string option \<Rightarrow> string option \<Rightarrow> 'v VectorMemory \<Rightarrow> error + recent list" where
  "get_recent_memories limit filter_role filter_type s =
     (case coll_get s of
        Inl e \<Rightarrow> Inl e
      | Inr all_docs \<Rightarrow>
          (let filtered = recent_rows filter_role filter_type all_docs
                            [0..<length (documents all_docs)];
               sorted_memories = sorted_reverse timestamp filtered
           in Inr (slice_to limit sorted_memories)))"

subsection \<open>Clearing and statistics\<close>

definition clear_memory :: "'v VectorMemory \<Rightarrow> (error + unit) \<times> 'v VectorMemory" where
  "clear_memory s =
     (case delete_collection (collection s) (client s) of
        Inl e \<Rightarrow> (Inl e, s)
      | Inr c1 \<Rightarrow>
          (case create_collection (collection s) cosine c1 of
             Inl e \<Rightarrow> (Inl e, s\<lparr>client := c1\<rparr>)
           | Inr c2 \<Rightarrow> (Inr (), s\<lparr>client := c2\<rparr>)))"

record stats =
  total_memories :: nat
  memories_by_role :: "string \<rightharpoonup> nat"
  memories_by_type :: "string \<rightharpoonup> nat"

definition get_or :: "('k \<rightharpoonup> 'a) \<Rightarrow> 'k \<Rightarrow> 'a \<Rightarrow> 'a" where
  "get_or m k d = (case m k of None \<Rightarrow> d | Some v \<Rightarrow> v)"

fun count_rows :: "meta_dict list \<Rightarrow> stats \<Rightarrow> stats" where
  "count_rows [] st = st"
| "count_rows (meta # rest) st =
     (let role = get_or meta ''role'' ''unknown'';
          mem_type = get_or meta ''type'' ''unknown''
      in count_rows rest
           (st\<lparr>memories_by_role :=
                  (memories_by_role st)(role \<mapsto> get_or (memories_by_role st) role 0 + 1),
                memories_by_type :=
                  (memories_by_type st)(mem_type \<mapsto>
                     get_or (memories_by_type st) mem_type 0 + 1)\<rparr>))"

definition get_memory_stats :: "'v VectorMemory \<Rightarrow> error + stats" where
  "get_memory_stats s =
     (case coll_get s of
        Inl e \<Rightarrow> Inl e
      | Inr docs \<Rightarrow>
          Inr (count_rows (metadatas docs)
                 \<lparr>total_memories = length (documents docs),
                  memories_by_role = Map.empty, memories_by_type = Map.empty\<rparr>))"

section \<open>Vocabulary of the results\<close>

text \<open>The records of the collection the object holds, in insertion order.\<close>

definition stored_records :: "'v VectorMemory \<Rightarrow> 'v memrec list" where
  "stored_records s = (case client s (collection s) of None \<Rightarrow> [] | Some col \<Rightarrow> coll_records col)"

text \<open>
  For stating what \<open>get_recent_memories\<close> returns: the condition under which its loop keeps
  a record, and the entry it builds of a record.
\<close>

definition keeps :: "string option \<Rightarrow> string option \<Rightarrow> meta_dict \<Rightarrow> bool" where
  "keeps filter_role filter_type meta =
     ((truthy filter_role \<longrightarrow> meta ''role'' = filter_role)
      \<and> (truthy filter_type \<longrightarrow> meta ''type'' = filter_type))"

definition entry_of :: "'v memrec \<Rightarrow> recent" where
  "entry_of r = \<lparr>content = rec_document r, metadata = rec_metadata r,
                 timestamp = get_or (rec_metadata r) ''timestamp'' []\<rparr>"

text \<open>The object after its collection was replaced by an empty one of the cosine metric.\<close>

definition cleared :: "'v VectorMemory \<Rightarrow> 'v VectorMemory" where
  "cleared s = s\<lparr>client := (client s)(collection s \<mapsto>
                   \<lparr>coll_metadata = cosine, coll_records = []\<rparr>)\<rparr>"

section \<open>Example data\<close>

text \<open>
  The values of \<open>json.loads\<close> on the strings the examples decode: the text
  \<open>{"k":"v"}\<close> is the object with the one key \<open>k\<close>; the other strings of the
  examples (\<open>{oops\<close>) are no JSON text.
\<close>

definition loads_example :: "string \<Rightarrow> pyval option" where
  "loads_example = map_of [(''{\"k\":\"v\"}'', PDict [(''k'', PStr ''v'')])]"

definition meta_user :: meta_dict where
  "meta_user = [''role'' \<mapsto> ''user'', ''timestamp'' \<mapsto> ''2024-01-01T10:00:00'',
                ''type'' \<mapsto> ''text'']"

text \<open>In the examples a list of integers stands for a vector of floats.\<close>

definition plain_store :: "int list client_state" where
  "plain_store = [''shell_assistant'' \<mapsto>
     \<lparr>coll_metadata = cosine,
      coll_records = [\<lparr>rec_id = ''id1'', rec_embedding = Some [1, 0],
                       rec_document = PStr ''hello'', rec_metadata = meta_user\<rparr>]\<rparr>]"

definition legacy_store :: "int list client_state" where
  "legacy_store = [''shell_assistant'' \<mapsto>
     \<lparr>coll_metadata = cosine,
      coll_records = [\<lparr>rec_id = ''id1'', rec_embedding = Some [1, 0],
                       rec_document = PStr ''{\"k\":\"v\"}'', rec_metadata = meta_user\<rparr>]\<rparr>]"

definition broken_store :: "int list client_state" where
  "broken_store = [''shell_assistant'' \<mapsto>
     \<lparr>coll_metadata = cosine,
      coll_records = [\<lparr>rec_id = ''id1'', rec_embedding = Some [1, 0],
                       rec_document = PStr ''{\"k\":\"v\"}'', rec_metadata = meta_user\<rparr>,
                      \<lparr>rec_id = ''id2'', rec_embedding = Some [0, 1],
                       rec_document = PStr ''{oops'', rec_metadata = meta_user\<rparr>]\<rparr>]"

text \<open>A collection whose first document is plain text and whose second starts with a brace.\<close>

definition mixed_store :: "int list client_state" where
  "mixed_store = [''shell_assistant'' \<mapsto>
     \<lparr>coll_metadata = cosine,
      coll_records = [\<lparr>rec_id = ''id1'', rec_embedding = Some [1, 0],
                       rec_document = PStr ''hello'', rec_metadata = meta_user\<rparr>,
                      \<lparr>rec_id = ''id2'', rec_embedding = Some [0, 1],
                       rec_document = PStr ''{oops'', rec_metadata = meta_user\<rparr>]\<rparr>]"

text \<open>A store that admits every insertion, and one that admits text documents only.\<close>

definition accepts_all :: "'v coll \<Rightarrow> 'v memrec list \<Rightarrow> bool" where
  "accepts_all col new = True"

definition accepts_text :: "'v coll \<Rightarrow> 'v memrec list \<Rightarrow> bool" where
  "accepts_text col new = list_all (\<lambda>r. case rec_document r of PStr _ \<Rightarrow> True | _ \<Rightarrow> False) new"

text \<open>
  An environment that holds a key, a provider that answers and one that fails, a distance,
  and a caller's metadata that names every stamped key.
\<close>

definition getenv_example :: "string \<rightharpoonup> string" where
  "getenv_example = [''DASHSCOPE_API_KEY'' \<mapsto> ''sk-test'']"

definition create_example :: "string \<Rightarrow> string \<Rightarrow> string + int list" where
  "create_example api_key text = Inr [0, 1]"

definition create_down :: "string \<Rightarrow> string \<Rightarrow> string + int list" where
  "create_down api_key text = Inl ''timeout''"

definition dist_example :: "int list memrec \<Rightarrow> int list \<Rightarrow> real" where
  "dist_example r q = (if rec_embedding r = Some q then 0 else 1 / 4)"

definition meta_caller :: meta_dict where
  "meta_caller = [''role'' \<mapsto> ''system'', ''timestamp'' \<mapsto> ''1999-12-31T23:59:59'',
                  ''type'' \<mapsto> ''note'']"

text \<open>A collection of three text memories, inserted at increasing times.\<close>

definition three_store :: "int list client_state" where
  "three_store = [''shell_assistant'' \<mapsto>
     \<lparr>coll_metadata = cosine,
      coll_records =
        [\<lparr>rec_id = ''id1'', rec_embedding = Some [1, 0], rec_document = PStr ''first'',
          rec_metadata = [''role'' \<mapsto> ''user'', ''timestamp'' \<mapsto> ''2024-01-01T10:00:00'',
                          ''type'' \<mapsto> ''text'']\<rparr>,
         \<lparr>rec_id = ''id2'', rec_embedding = Some [0, 1], rec_document = PStr ''second'',
          rec_metadata = [''role'' \<mapsto> ''assistant'', ''timestamp'' \<mapsto> ''2024-01-01T10:00:05'',
                          ''type'' \<mapsto> ''text'']\<rparr>,
         \<lparr>rec_id = ''id3'', rec_embedding = Some [1, 1], rec_document = PStr ''third'',
          rec_metadata = [''role'' \<mapsto> ''user'', ''timestamp'' \<mapsto> ''2024-01-02T08:30:00'',
                          ''type'' \<mapsto> ''text'']\<rparr>]\<rparr>]"

section \<open>Results about the conversation buffer\<close>

lemma trim_history_pos:
  assumes "0 < max_history"
  shows "trim_history max_history history =
           drop (length history - nat (2 * max_history)) history"
  using assms
  by (auto simp: trim_history_def slice_from_def nat_diff_distrib nat_add_distrib
                 mult.commute)

text \<open>
  For a positive \<open>max_history\<close> the buffer is trimmed as its docstring says: trimming is
  idempotent, the length afterwards is at most \<open>2 \<times> max_history\<close>, and when trimming
  removes entries, what is kept is exactly the last \<open>2 \<times> max_history\<close> entries in their
  order (the dropped entries are a non-empty prefix of the history).
\<close>

lemma trim_history_positive:
  assumes "0 < max_history"
  shows "trim_history max_history (trim_history max_history history)
           = trim_history max_history history
         \<and> int (length (trim_history max_history history)) \<le> 2 * max_history
         \<and> (trim_history max_history history \<noteq> history \<longrightarrow>
              int (length (trim_history max_history history)) = 2 * max_history
              \<and> (\<exists>dropped. dropped \<noteq> [] \<and>
                     history = dropped @ trim_history max_history history))"
proof -
  let ?t = "trim_history max_history history"
  have eq: "?t = drop (length history - nat (2 * max_history)) history"
    by (rule trim_history_pos [OF assms])
  have len: "int (length ?t) \<le> 2 * max_history"
    using assms by (simp add: eq)
  have idem: "trim_history max_history ?t = ?t"
    using len by (simp add: trim_history_def mult.commute)
  have removed: "?t \<noteq> history \<longrightarrow>
              int (length ?t) = 2 * max_history
              \<and> (\<exists>dropped. dropped \<noteq> [] \<and> history = dropped @ ?t)"
  proof
    assume "?t \<noteq> history"
    then have gt: "int (length history) > 2 * max_history"
      by (auto simp: trim_history_def mult.commute split: if_splits)
    have l: "int (length ?t) = 2 * max_history"
      using gt assms by (simp add: eq)
    let ?d = "take (length history - nat (2 * max_history)) history"
    have "?d \<noteq> []" using gt assms by auto
    moreover have "history = ?d @ ?t" by (simp add: eq)
    ultimately show "int (length ?t) = 2 * max_history
              \<and> (\<exists>dropped. dropped \<noteq> [] \<and> history = dropped @ ?t)"
      using l by blast
  qed
  from idem len removed show ?thesis by blast
qed

text \<open>
  With \<open>max_history = 0\<close> the slice is \<open>history[-0:]\<close>, which is \<open>history[0:]\<close>: nothing is
  ever removed.
\<close>

lemma trim_history_zero: "trim_history 0 history = history"
  by (simp add: trim_history_def slice_from_def)

text \<open>
  C7. Trimming is to be idempotent, to leave at most \<open>2 \<times> max_history\<close> entries, and to
  keep the most recent \<open>2 \<times> max_history\<close> entries when it removes any. With
  \<open>max_history = 0\<close>, which the option \<open>--max-history 0\<close> sets, a history of one round is
  longer than the limit of 0 entries, and \<open>_trim_history\<close> leaves both of its entries in
  place.
\<close>

theorem trim_history_zero_keeps_all:
  "trim_history 0 [''user turn'', ''assistant turn''] = [''user turn'', ''assistant turn'']
   \<and> \<not> int (length (trim_history 0 [''user turn'', ''assistant turn''])) \<le> 2 * 0"
  by (simp add: trim_history_def slice_from_def)

section \<open>Results about construction and migration\<close>

lemmas store_defs =
  coll_get_def delete_collection_def create_collection_def get_or_create_collection_def
  coll_add_def make_records_def

lemma VectorMemory_init_empty:
  "VectorMemory_init loads accepts name c0 =
     (Inr (), \<lparr>client = c0(name \<mapsto> \<lparr>coll_metadata = cosine, coll_records = []\<rparr>),
               collection = name\<rparr>)"
  by (auto simp: VectorMemory_init_def migrate_if_needed_def store_defs split: option.splits)

text \<open>
  C1. The claim is that a record inserted before a restart is visible after it, the
  collection being deleted only when its configuration is incompatible. The constructor
  deletes the collection at every construction: on a store that holds one record in a
  collection of the unchanged cosine configuration, the collection is empty afterwards,
  whatever the decoder and the store's checks are.
\<close>

theorem VectorMemory_init_loses_record:
  "VectorMemory_init loads accepts ''shell_assistant'' plain_store =
     (Inr (), \<lparr>client = [''shell_assistant'' \<mapsto>
                            \<lparr>coll_metadata = cosine, coll_records = []\<rparr>],
               collection = ''shell_assistant''\<rparr>)"
  by (simp add: VectorMemory_init_empty plain_store_def)

lemma migrate_if_needed_not_legacy:
  assumes "client s (collection s) = Some col"
      and "coll_records col = [] \<or> \<not> legacy (rec_document (hd (coll_records col)))"
  shows "migrate_if_needed loads accepts s = (Inr (), s)"
  using assms
  by (cases "coll_records col") (auto simp: migrate_if_needed_def coll_get_def)

text \<open>
  C2. The claim is that migration replaces each legacy document by the plain text
  decoded from it. The code hands the value of \<open>json.loads\<close> itself to the store: for the
  document \<open>{"k":"v"}\<close> that is the dictionary, not a text. On a store that admits
  every insertion the record \<open>id1\<close> then holds the dictionary; on a store that admits
  text documents only the insertion is refused after the collection was deleted and
  recreated, and the collection is left empty.
\<close>

theorem migrate_if_needed_stores_decoded_value:
  "migrate_if_needed loads_example accepts_all
       \<lparr>client = legacy_store, collection = ''shell_assistant''\<rparr> =
     (Inr (), \<lparr>client = [''shell_assistant'' \<mapsto>
                 \<lparr>coll_metadata = cosine,
                  coll_records = [\<lparr>rec_id = ''id1'', rec_embedding = None,
                                   rec_document = PDict [(''k'', PStr ''v'')],
                                   rec_metadata = meta_user\<rparr>]\<rparr>],
               collection = ''shell_assistant''\<rparr>)
   \<and> migrate_if_needed loads_example accepts_text
       \<lparr>client = legacy_store, collection = ''shell_assistant''\<rparr> =
     (Inl StorageError,
      \<lparr>client = [''shell_assistant'' \<mapsto> \<lparr>coll_metadata = cosine, coll_records = []\<rparr>],
       collection = ''shell_assistant''\<rparr>)"
  by (simp add: migrate_if_needed_def store_defs legacy_def json_loads_def
                legacy_store_def loads_example_def accepts_all_def accepts_text_def)

lemma migrate_rows_fails:
  "i \<in> set todo \<Longrightarrow> json_loads loads (documents docs ! i) = Inl e0
     \<Longrightarrow> \<exists>e. migrate_rows loads docs todo acc = Inl e"
proof (induction todo arbitrary: acc)
  case Nil
  then show ?case by simp
next
  case (Cons j rest)
  obtain a b c where acc: "acc = (a, b, c)" by (cases acc) auto
  show ?case
  proof (cases "json_loads loads (documents docs ! j)")
    case (Inl e)
    then show ?thesis by (simp add: acc)
  next
    case (Inr v)
    with Cons.prems have "i \<in> set rest" by auto
    from Cons.IH [OF this Cons.prems(2)] Inr show ?thesis by (simp add: acc)
  qed
qed

text \<open>
  C3, as the claim states it, fails. Only the first document is sampled: in a collection
  whose first document is the plain text \<open>hello\<close> and whose second is \<open>{oops\<close>, a string
  that starts with a brace and does not decode, migration does not run and
  \<open>_migrate_if_needed\<close> returns without raising.
\<close>

theorem migrate_if_needed_first_document_counterexample:
  "legacy (PStr ''{oops'')
   \<and> json_loads loads_example (PStr ''{oops'') = Inl JSONDecodeError
   \<and> migrate_if_needed loads_example accepts_all
         \<lparr>client = mixed_store, collection = ''shell_assistant''\<rparr>
       = (Inr (), \<lparr>client = mixed_store, collection = ''shell_assistant''\<rparr>)"
  by (simp add: migrate_if_needed_def coll_get_def legacy_def json_loads_def
                mixed_store_def loads_example_def)

text \<open>
  C3, amended. When the document of one of the records of the collection does not decode,
  the object after \<open>_migrate_if_needed\<close>, with its client and every record of every
  collection, is what it was before the call. When the first document of the collection
  is in the legacy encoding (so that migration runs) the call raises: the decoding loop
  ends before the collection is deleted. When it is not, the call returns without
  raising.
\<close>

theorem migrate_if_needed_decode_failure:
  assumes live: "client s (collection s) = Some col"
      and first: "coll_records col = r # rs"
      and bad: "bad \<in> set (coll_records col)"
      and undec: "json_loads loads (rec_document bad) = Inl e0"
  shows "snd (migrate_if_needed loads accepts s) = s
         \<and> (legacy (rec_document r)
              \<longrightarrow> (\<exists>e. migrate_if_needed loads accepts s = (Inl e, s)))
         \<and> (\<not> legacy (rec_document r)
              \<longrightarrow> migrate_if_needed loads accepts s = (Inr (), s))"
proof -
  let ?docs = "\<lparr>ids = map rec_id (coll_records col),
               documents = map rec_document (coll_records col),
               metadatas = map rec_metadata (coll_records col)\<rparr>"
  have get: "coll_get s = Inr ?docs" by (simp add: coll_get_def live)
  from bad obtain i where i: "i < length (coll_records col)" "coll_records col ! i = bad"
    by (auto simp: in_set_conv_nth)
  have "i \<in> set [0..<length (documents ?docs)]" using i by simp
  moreover have "json_loads loads (documents ?docs ! i) = Inl e0" using i undec by simp
  ultimately obtain e where
    rows: "migrate_rows loads ?docs [0..<length (documents ?docs)] ([], [], []) = Inl e"
    using migrate_rows_fails by blast
  have raised: "legacy (rec_document r) \<longrightarrow> migrate_if_needed loads accepts s = (Inl e, s)"
    using first rows by (simp add: migrate_if_needed_def get)
  have passed: "\<not> legacy (rec_document r) \<longrightarrow> migrate_if_needed loads accepts s = (Inr (), s)"
    using first by (simp add: migrate_if_needed_def get)
  have same: "snd (migrate_if_needed loads accepts s) = s"
    using raised passed by (cases "legacy (rec_document r)") simp_all
  from same raised passed show ?thesis by blast
qed

theorem migrate_if_needed_decode_failure_witness:
  "migrate_if_needed loads_example accepts_all
       \<lparr>client = broken_store, collection = ''shell_assistant''\<rparr> =
     (Inl JSONDecodeError, \<lparr>client = broken_store, collection = ''shell_assistant''\<rparr>)"
proof -
  let ?s = "\<lparr>client = broken_store, collection = ''shell_assistant''\<rparr>"
  let ?r1 = "\<lparr>rec_id = ''id1'', rec_embedding = Some [1, 0::int],
              rec_document = PStr ''{\"k\":\"v\"}'', rec_metadata = meta_user\<rparr>"
  let ?r2 = "\<lparr>rec_id = ''id2'', rec_embedding = Some [0, 1::int],
              rec_document = PStr ''{oops'', rec_metadata = meta_user\<rparr>"
  let ?col = "\<lparr>coll_metadata = cosine, coll_records = [?r1, ?r2]\<rparr>"
  have live: "client ?s (collection ?s) = Some ?col" by (simp add: broken_store_def)
  have first: "coll_records ?col = ?r1 # [?r2]" by simp
  have leg: "legacy (rec_document ?r1)" by (simp add: legacy_def)
  have bad: "?r2 \<in> set (coll_records ?col)" by simp
  have undec: "json_loads loads_example (rec_document ?r2) = Inl JSONDecodeError"
    by (simp add: json_loads_def loads_example_def)
  from migrate_if_needed_decode_failure [OF live first bad undec, of accepts_all] leg
  obtain e where e: "migrate_if_needed loads_example accepts_all ?s = (Inl e, ?s)" by blast
  have "fst (migrate_if_needed loads_example accepts_all ?s) = Inl JSONDecodeError"
    by (simp add: migrate_if_needed_def store_defs legacy_def json_loads_def
                  broken_store_def loads_example_def)
  with e show ?thesis by simp
qed

section \<open>Results about storing and searching\<close>

lemma coll_add_one:
  assumes "coll_add accepts (Some [emb]) [doc] [meta] [mid] s = Inr s'"
  shows "stored_records s' = stored_records s @
           [\<lparr>rec_id = mid, rec_embedding = Some emb, rec_document = doc, rec_metadata = meta\<rparr>]
         \<and> collection s' = collection s"
  using assms
  by (auto simp: coll_add_def make_records_def stored_records_def
           split: option.splits if_splits)

lemma store_memory_success:
  assumes "store_memory getenv create accepts memory_id now role body md s = (Inr mid, s')"
  shows "\<exists>emb. stored_records s' = stored_records s @
           [\<lparr>rec_id = mid, rec_embedding = Some emb, rec_document = PStr body,
             rec_metadata = [''role'' \<mapsto> role, ''timestamp'' \<mapsto> now, ''type'' \<mapsto> ''text'']
                             ++ or_empty md\<rparr>]"
  using assms
  by (auto simp: store_memory_def Let_def split: sum.splits dest!: coll_add_one)

lemma store_code_memory_success:
  assumes "store_code_memory getenv create accepts memory_id now role body file_path
             language md s = (Inr mid, s')"
  shows "\<exists>emb. stored_records s' = stored_records s @
           [\<lparr>rec_id = mid, rec_embedding = Some emb,
             rec_document = PStr (body @ code_marker language file_path),
             rec_metadata = [''role'' \<mapsto> role, ''timestamp'' \<mapsto> now, ''type'' \<mapsto> ''code'',
                             ''file_path'' \<mapsto> file_path, ''language'' \<mapsto> language]
                             ++ or_empty md\<rparr>]"
  using assms
  by (auto simp: store_code_memory_def Let_def split: sum.splits dest!: coll_add_one)

text \<open>
  C4. When the embedding provider cannot produce a vector (the variable
  \<open>DASHSCOPE_API_KEY\<close> is unset or empty, or the call upstream raises), \<open>store_memory\<close>
  raises, and the object with its collection is what it was before the call: no record
  is inserted.
\<close>

theorem store_memory_embedding_failure:
  assumes "getenv ''DASHSCOPE_API_KEY'' = None \<or> getenv ''DASHSCOPE_API_KEY'' = Some []
           \<or> (\<exists>k msg. getenv ''DASHSCOPE_API_KEY'' = Some k \<and> create k body = Inl msg)"
  shows "\<exists>e. store_memory getenv create accepts memory_id now role body md s
              = (Inl e, s)"
  using assms
  by (auto simp: store_memory_def get_embedding_def)

theorem store_memory_embedding_failure_witness:
  "store_memory Map.empty create_example accepts_all ''id2'' ''2024-01-02T09:00:00''
       ''user'' ''hi'' None \<lparr>client = plain_store, collection = ''shell_assistant''\<rparr>
     = (Inl ApiKeyUnset, \<lparr>client = plain_store, collection = ''shell_assistant''\<rparr>)
   \<and> store_memory getenv_example create_down accepts_all ''id2'' ''2024-01-02T09:00:00''
       ''user'' ''hi'' None \<lparr>client = plain_store, collection = ''shell_assistant''\<rparr>
     = (Inl (EmbeddingFailed ''OpenRouter embedding failed: timeout''),
        \<lparr>client = plain_store, collection = ''shell_assistant''\<rparr>)"
proof -
  let ?s = "\<lparr>client = plain_store, collection = ''shell_assistant''\<rparr>"
  have "\<exists>e. store_memory Map.empty create_example accepts_all ''id2''
       ''2024-01-02T09:00:00'' ''user'' ''hi'' None ?s = (Inl e, ?s)"
    by (rule store_memory_embedding_failure) simp
  then obtain e1 where e1: "store_memory Map.empty create_example accepts_all ''id2''
       ''2024-01-02T09:00:00'' ''user'' ''hi'' None ?s = (Inl e1, ?s)" by blast
  have "\<exists>e. store_memory getenv_example create_down accepts_all ''id2''
       ''2024-01-02T09:00:00'' ''user'' ''hi'' None ?s = (Inl e, ?s)"
    by (rule store_memory_embedding_failure)
       (simp add: getenv_example_def create_down_def)
  then obtain e2 where e2: "store_memory getenv_example create_down accepts_all ''id2''
       ''2024-01-02T09:00:00'' ''user'' ''hi'' None ?s = (Inl e2, ?s)" by blast
  have "e1 = ApiKeyUnset" using e1 by (simp add: store_memory_def get_embedding_def)
  moreover have "e2 = EmbeddingFailed ''OpenRouter embedding failed: timeout''"
    using e2 by (simp add: store_memory_def get_embedding_def getenv_example_def create_down_def)
  ultimately show ?thesis using e1 e2 by simp
qed

lemma format_rows_score:
  "format_rows results i docs = Inr ms \<Longrightarrow> \<forall>m\<in>set ms. relevance_score m = 1 - distance m"
  by (induction docs arbitrary: i ms) (auto split: sum.splits)

text \<open>
  C5. In every entry that \<open>search_relevant_memories\<close> returns, the relevance score is
  one minus the distance of that entry, in whatever arithmetic the distances have.
\<close>

theorem search_relevant_memories_score:
  assumes "search_relevant_memories getenv create dist_of query top_k filter_role filter_type s
             = Inr ms"
  shows "\<forall>m\<in>set ms. relevance_score m = 1 - distance m"
  using assms
  by (auto simp: search_relevant_memories_def split: sum.splits list.splits
           dest!: format_rows_score)

theorem search_relevant_memories_score_witness:
  "search_relevant_memories getenv_example create_example dist_example ''hello there'' 3
       None None \<lparr>client = plain_store, collection = ''shell_assistant''\<rparr>
     = Inr [\<lparr>content = PStr ''hello'', metadata = meta_user,
             distance = 1 / 4, relevance_score = 3 / 4\<rparr>]
   \<and> relevance_score \<lparr>content = PStr ''hello'', metadata = meta_user,
                        distance = 1 / 4 :: real, relevance_score = 3 / 4\<rparr>
       = 1 - distance \<lparr>content = PStr ''hello'', metadata = meta_user,
                        distance = 1 / 4 :: real, relevance_score = 3 / 4\<rparr>"
proof -
  have r: "search_relevant_memories getenv_example create_example dist_example
       ''hello there'' 3 None None \<lparr>client = plain_store, collection = ''shell_assistant''\<rparr>
     = Inr [\<lparr>content = PStr ''hello'', metadata = meta_user,
             distance = 1 / 4, relevance_score = 3 / 4\<rparr>]"
    by (simp add: search_relevant_memories_def get_embedding_def getenv_example_def
          create_example_def coll_query_def where_clause_of_def truthy_def matches_def
          plain_store_def dist_example_def py_index_def)
  from search_relevant_memories_score [OF r] r show ?thesis
    by (simp del: scored.simps)
qed

lemma upper_Python: "upper ''Python'' = ''PYTHON''"
  by code_simp

text \<open>
  C6, as the claim states it, fails for a caller whose metadata names the key \<open>type\<close>:
  with \<open>{"type": "code_load"}\<close>, the metadata assistant.py itself passes, the stored
  type is \<open>code_load\<close>, not \<open>code\<close>.
\<close>

theorem store_code_memory_type_counterexample:
  "fst (store_code_memory getenv_example create_example accepts_all ''id2''
          ''2024-01-02T09:00:00'' ''user'' ''print(1)'' ''a.py'' ''Python''
          (Some [''type'' \<mapsto> ''code_load''])
          \<lparr>client = plain_store, collection = ''shell_assistant''\<rparr>) = Inr ''id2''
   \<and> rec_metadata (last (stored_records (snd
         (store_code_memory getenv_example create_example accepts_all ''id2''
          ''2024-01-02T09:00:00'' ''user'' ''print(1)'' ''a.py'' ''Python''
          (Some [''type'' \<mapsto> ''code_load''])
          \<lparr>client = plain_store, collection = ''shell_assistant''\<rparr>)))) ''type''
       = Some ''code_load''"
  by (simp add: store_code_memory_def get_embedding_def getenv_example_def
        create_example_def coll_add_def make_records_def accepts_all_def plain_store_def
        stored_records_def or_empty_def)

text \<open>
  C6, amended. A call of \<open>store_code_memory\<close> that returns has appended one record under
  the returned id; its document is the content followed by the marker line with the
  uppercase language and the file path; its metadata holds the type \<open>code\<close>, the given
  file path and the given language, each under its key unless the caller's metadata
  names that key.
\<close>

theorem store_code_memory_record:
  assumes "store_code_memory getenv create accepts memory_id now role body file_path
             language md s = (Inr mid, s')"
  shows "\<exists>r. stored_records s' = stored_records s @ [r]
           \<and> rec_id r = mid
           \<and> rec_document r =
               PStr (body @ ''\<newline>\<newline># ['' @ upper language @ ''] CODE MEMORY: '' @ file_path
                       @ ''\<newline>'')
           \<and> (or_empty md ''type'' = None \<longrightarrow> rec_metadata r ''type'' = Some ''code'')
           \<and> (or_empty md ''file_path'' = None
                \<longrightarrow> rec_metadata r ''file_path'' = Some file_path)
           \<and> (or_empty md ''language'' = None
                \<longrightarrow> rec_metadata r ''language'' = Some language)"
proof -
  from store_code_memory_success [OF assms] obtain emb where
    st: "stored_records s' = stored_records s @
           [\<lparr>rec_id = mid, rec_embedding = Some emb,
             rec_document = PStr (body @ code_marker language file_path),
             rec_metadata = [''role'' \<mapsto> role, ''timestamp'' \<mapsto> now, ''type'' \<mapsto> ''code'',
                             ''file_path'' \<mapsto> file_path, ''language'' \<mapsto> language]
                             ++ or_empty md\<rparr>]" by blast
  show ?thesis
    by (rule exI, rule conjI, rule st) (simp add: code_marker_def map_add_def)
qed

theorem store_code_memory_record_witness:
  "\<exists>r. stored_records (snd (store_code_memory getenv_example create_example accepts_all
               ''id2'' ''2024-01-02T09:00:00'' ''user'' ''print(1)'' ''a.py'' ''Python''
               (Some Map.empty) \<lparr>client = plain_store, collection = ''shell_assistant''\<rparr>))
         = stored_records \<lparr>client = plain_store, collection = ''shell_assistant''\<rparr> @ [r]
       \<and> rec_id r = ''id2''
       \<and> rec_document r = PStr ''print(1)\<newline>\<newline># [PYTHON] CODE MEMORY: a.py\<newline>''
       \<and> rec_metadata r ''type'' = Some ''code''
       \<and> rec_metadata r ''file_path'' = Some ''a.py''
       \<and> rec_metadata r ''language'' = Some ''Python''"
proof -
  let ?s = "\<lparr>client = plain_store, collection = ''shell_assistant''\<rparr>"
  let ?call = "store_code_memory getenv_example create_example accepts_all
               ''id2'' ''2024-01-02T09:00:00'' ''user'' ''print(1)'' ''a.py'' ''Python''
               (Some Map.empty) ?s"
  have "fst ?call = Inr ''id2''"
    by (simp add: store_code_memory_def get_embedding_def getenv_example_def
          create_example_def coll_add_def make_records_def accepts_all_def plain_store_def)
  then have run: "?call = (Inr ''id2'', snd ?call)"
    by (metis prod.collapse)
  from store_code_memory_record [OF run] show ?thesis
    by (simp add: or_empty_def upper_Python)
qed

text \<open>
  C10. When the caller's metadata holds a value under a key (in particular under
  \<open>role\<close>, \<open>timestamp\<close> or \<open>type\<close>), the record that \<open>store_memory\<close> or
  \<open>store_code_memory\<close> stores carries the caller's value under that key, in place of
  the stamped one.
\<close>

theorem caller_metadata_overrides:
  assumes "md = Some m" and "m k = Some v"
  shows "(store_memory getenv create accepts memory_id now role body md s = (Inr mid, s')
            \<longrightarrow> (\<exists>r. stored_records s' = stored_records s @ [r] \<and> rec_id r = mid
                     \<and> rec_metadata r k = Some v))
       \<and> (store_code_memory getenv create accepts memory_id now role body file_path
             language md s = (Inr mid, s'')
            \<longrightarrow> (\<exists>r. stored_records s'' = stored_records s @ [r] \<and> rec_id r = mid
                     \<and> rec_metadata r k = Some v))"
proof (intro conjI impI)
  assume "store_memory getenv create accepts memory_id now role body md s = (Inr mid, s')"
  from store_memory_success [OF this] obtain emb where
    "stored_records s' = stored_records s @
           [\<lparr>rec_id = mid, rec_embedding = Some emb, rec_document = PStr body,
             rec_metadata = [''role'' \<mapsto> role, ''timestamp'' \<mapsto> now, ''type'' \<mapsto> ''text'']
                             ++ or_empty md\<rparr>]" by blast
  then show "\<exists>r. stored_records s' = stored_records s @ [r] \<and> rec_id r = mid
                     \<and> rec_metadata r k = Some v"
    using assms by (simp add: or_empty_def map_add_def)
next
  assume "store_code_memory getenv create accepts memory_id now role body file_path
             language md s = (Inr mid, s'')"
  from store_code_memory_success [OF this] obtain emb where
    "stored_records s'' = stored_records s @
           [\<lparr>rec_id = mid, rec_embedding = Some emb,
             rec_document = PStr (body @ code_marker language file_path),
             rec_metadata = [''role'' \<mapsto> role, ''timestamp'' \<mapsto> now, ''type'' \<mapsto> ''code'',
                             ''file_path'' \<mapsto> file_path, ''language'' \<mapsto> language]
                             ++ or_empty md\<rparr>]" by blast
  then show "\<exists>r. stored_records s'' = stored_records s @ [r] \<and> rec_id r = mid
                     \<and> rec_metadata r k = Some v"
    using assms by (simp add: or_empty_def map_add_def)
qed

theorem caller_metadata_overrides_witness:
  "(\<exists>r. stored_records (snd (store_memory getenv_example create_example accepts_all
               ''id2'' ''2024-01-02T09:00:00'' ''user'' ''print(1)'' (Some meta_caller)
               \<lparr>client = plain_store, collection = ''shell_assistant''\<rparr>))
         = stored_records \<lparr>client = plain_store, collection = ''shell_assistant''\<rparr> @ [r]
       \<and> rec_id r = ''id2'' \<and> rec_metadata r ''timestamp'' = Some ''1999-12-31T23:59:59'')
   \<and> (\<exists>r. stored_records (snd (store_code_memory getenv_example create_example accepts_all
               ''id2'' ''2024-01-02T09:00:00'' ''user'' ''print(1)'' ''a.py'' ''Python''
               (Some meta_caller) \<lparr>client = plain_store, collection = ''shell_assistant''\<rparr>))
         = stored_records \<lparr>client = plain_store, collection = ''shell_assistant''\<rparr> @ [r]
       \<and> rec_id r = ''id2'' \<and> rec_metadata r ''timestamp'' = Some ''1999-12-31T23:59:59'')"
proof -
  let ?s = "\<lparr>client = plain_store, collection = ''shell_assistant''\<rparr>"
  let ?c1 = "store_memory getenv_example create_example accepts_all
               ''id2'' ''2024-01-02T09:00:00'' ''user'' ''print(1)'' (Some meta_caller) ?s"
  let ?c2 = "store_code_memory getenv_example create_example accepts_all
               ''id2'' ''2024-01-02T09:00:00'' ''user'' ''print(1)'' ''a.py'' ''Python''
               (Some meta_caller) ?s"
  have "fst ?c1 = Inr ''id2''"
    by (simp add: store_memory_def get_embedding_def getenv_example_def
          create_example_def coll_add_def make_records_def accepts_all_def plain_store_def)
  then have r1: "?c1 = (Inr ''id2'', snd ?c1)" by (metis prod.collapse)
  have "fst ?c2 = Inr ''id2''"
    by (simp add: store_code_memory_def get_embedding_def getenv_example_def
          create_example_def coll_add_def make_records_def accepts_all_def plain_store_def)
  then have r2: "?c2 = (Inr ''id2'', snd ?c2)" by (metis prod.collapse)
  have k: "meta_caller ''timestamp'' = Some ''1999-12-31T23:59:59''"
    by (simp add: meta_caller_def)
  from caller_metadata_overrides [where md = "Some meta_caller" and m = meta_caller
         and k = "''timestamp''" and v = "''1999-12-31T23:59:59''"
         and getenv = getenv_example and create = create_example and accepts = accepts_all
         and memory_id = "''id2''" and now = "''2024-01-02T09:00:00''" and role = "''user''"
         and body = "''print(1)''" and s = ?s and mid = "''id2''" and s' = "snd ?c1"
         and file_path = "''a.py''" and language = "''Python''" and s'' = "snd ?c2",
         OF refl k]
  show ?thesis using r1 r2 by blast
qed

section \<open>Results about recent memories and clearing\<close>

lemma recent_rows_eq:
  assumes "\<forall>i\<in>set todo. i < length recs"
  shows "recent_rows fr ft \<lparr>ids = map rec_id recs, documents = map rec_document recs,
                            metadatas = map rec_metadata recs\<rparr> todo
         = map entry_of (filter (\<lambda>r. keeps fr ft (rec_metadata r)) (map (\<lambda>i. recs ! i) todo))"
  using assms
  by (induction todo) (auto simp: keeps_def entry_of_def get_or_def Let_def)

lemma recent_rows_all:
  "recent_rows fr ft \<lparr>ids = map rec_id recs, documents = map rec_document recs,
                       metadatas = map rec_metadata recs\<rparr> [0..<length recs]
   = map entry_of (filter (\<lambda>r. keeps fr ft (rec_metadata r)) recs)"
  by (simp add: recent_rows_eq map_nth)

lemma mset_sorted_reverse: "mset (sorted_reverse key xs) = mset xs"
  by (simp add: sorted_reverse_def)

lemma sorted_sorted_reverse:
  "sorted_wrt (\<lambda>a b. key a \<ge> key b) (sorted_reverse key xs)"
proof -
  have "sorted (map key (sort_key key (rev xs)))" by simp
  then have "sorted_wrt (\<lambda>a b. key a \<le> key b) (sort_key key (rev xs))"
    by (simp only: sorted_map)
  then show ?thesis
    by (simp add: sorted_reverse_def sorted_wrt_rev)
qed

lemma get_recent_memories_eq:
  assumes "client s (collection s) = Some col"
  shows "get_recent_memories limit fr ft s =
           Inr (slice_to limit (sorted_reverse timestamp
                  (map entry_of (filter (\<lambda>r. keeps fr ft (rec_metadata r)) (coll_records col)))))"
  using assms
  by (simp add: get_recent_memories_def coll_get_def recent_rows_all)

lemma sorted_reverse_three:
  assumes "key a < key b" "key b < key c"
  shows "sorted_reverse key [a, b, c] = [c, b, a]"
  using assms by (auto simp: sorted_reverse_def)

text \<open>
  C8. Through a live handle and with a limit that is not negative,
  \<open>get_recent_memories\<close> returns entries of stored records that pass the role and type
  filters (each at most as often as it is stored), in descending order of their
  timestamps, as many as the limit allows; no entry left out is newer than one returned.
  For three memories stored with timestamps \<open>T1 < T2 < T3\<close>, the limit 2 gives the entry
  of the third and then that of the second.
\<close>

theorem get_recent_memories_newest_first:
  assumes live: "client s (collection s) = Some col" and lim: "0 \<le> limit"
  shows "\<exists>rs. get_recent_memories limit filter_role filter_type s = Inr rs
           \<and> mset rs \<subseteq># mset (map entry_of
                 (filter (\<lambda>r. keeps filter_role filter_type (rec_metadata r)) (coll_records col)))
           \<and> sorted_wrt (\<lambda>a b. timestamp a \<ge> timestamp b) rs
           \<and> length rs = min (nat limit)
                 (length (filter (\<lambda>r. keeps filter_role filter_type (rec_metadata r))
                            (coll_records col)))
           \<and> (\<forall>x. x \<in># mset (map entry_of
                        (filter (\<lambda>r. keeps filter_role filter_type (rec_metadata r))
                           (coll_records col))) - mset rs
                  \<longrightarrow> (\<forall>y\<in>set rs. timestamp x \<le> timestamp y))
           \<and> (coll_records col = [r1, r2, r3]
                \<and> timestamp (entry_of r1) < timestamp (entry_of r2)
                \<and> timestamp (entry_of r2) < timestamp (entry_of r3)
                \<longrightarrow> get_recent_memories 2 None None s = Inr [entry_of r3, entry_of r2])"
proof -
  let ?m = "map entry_of
              (filter (\<lambda>r. keeps filter_role filter_type (rec_metadata r)) (coll_records col))"
  let ?full = "sorted_reverse timestamp ?m"
  let ?n = "nat limit"
  let ?rs = "take ?n ?full"
  have run: "get_recent_memories limit filter_role filter_type s = Inr ?rs"
    using lim by (simp add: get_recent_memories_eq [OF live] slice_to_def)
  have split: "mset ?m = mset ?rs + mset (drop ?n ?full)"
    by (metis append_take_drop_id mset_append mset_sorted_reverse)
  have sub: "mset ?rs \<subseteq># mset ?m" by (simp only: split mset_subset_eq_add_left)
  have diff: "mset ?m - mset ?rs = mset (drop ?n ?full)"
    by (simp only: split add_diff_cancel_left')
  have srt: "sorted_wrt (\<lambda>a b. timestamp a \<ge> timestamp b) (?rs @ drop ?n ?full)"
    by (simp only: append_take_drop_id sorted_sorted_reverse)
  then have srt_rs: "sorted_wrt (\<lambda>a b. timestamp a \<ge> timestamp b) ?rs"
    by (simp only: sorted_wrt_append)
  have len: "length ?rs = min ?n (length (filter (\<lambda>r. keeps filter_role filter_type
                 (rec_metadata r)) (coll_records col)))"
    by (simp add: sorted_reverse_def)
  have rest: "\<forall>x. x \<in># mset ?m - mset ?rs \<longrightarrow> (\<forall>y\<in>set ?rs. timestamp x \<le> timestamp y)"
  proof (intro allI impI ballI)
    fix x y assume "x \<in># mset ?m - mset ?rs" and y: "y \<in> set ?rs"
    then have "x \<in> set (drop ?n ?full)" by (simp only: diff set_mset_mset)
    with y srt show "timestamp x \<le> timestamp y"
      by (simp only: sorted_wrt_append)
  qed
  have three: "coll_records col = [r1, r2, r3]
                \<and> timestamp (entry_of r1) < timestamp (entry_of r2)
                \<and> timestamp (entry_of r2) < timestamp (entry_of r3)
                \<longrightarrow> get_recent_memories 2 None None s = Inr [entry_of r3, entry_of r2]"
    by (simp add: get_recent_memories_eq [OF live] slice_to_def keeps_def truthy_def
                  sorted_reverse_three)
  from run sub srt_rs len rest three show ?thesis by blast
qed

theorem get_recent_memories_newest_first_witness:
  "get_recent_memories 2 None None \<lparr>client = three_store, collection = ''shell_assistant''\<rparr>
     = Inr [\<lparr>content = PStr ''third'',
             metadata = [''role'' \<mapsto> ''user'', ''timestamp'' \<mapsto> ''2024-01-02T08:30:00'',
                         ''type'' \<mapsto> ''text''],
             timestamp = ''2024-01-02T08:30:00''\<rparr>,
            \<lparr>content = PStr ''second'',
             metadata = [''role'' \<mapsto> ''assistant'', ''timestamp'' \<mapsto> ''2024-01-01T10:00:05'',
                         ''type'' \<mapsto> ''text''],
             timestamp = ''2024-01-01T10:00:05''\<rparr>]"
proof -
  let ?s = "\<lparr>client = three_store, collection = ''shell_assistant''\<rparr>"
  let ?r1 = "\<lparr>rec_id = ''id1'', rec_embedding = Some [1, 0::int], rec_document = PStr ''first'',
          rec_metadata = [''role'' \<mapsto> ''user'', ''timestamp'' \<mapsto> ''2024-01-01T10:00:00'',
                          ''type'' \<mapsto> ''text'']\<rparr>"
  let ?r2 = "\<lparr>rec_id = ''id2'', rec_embedding = Some [0, 1::int], rec_document = PStr ''second'',
          rec_metadata = [''role'' \<mapsto> ''assistant'', ''timestamp'' \<mapsto> ''2024-01-01T10:00:05'',
                          ''type'' \<mapsto> ''text'']\<rparr>"
  let ?r3 = "\<lparr>rec_id = ''id3'', rec_embedding = Some [1, 1::int], rec_document = PStr ''third'',
          rec_metadata = [''role'' \<mapsto> ''user'', ''timestamp'' \<mapsto> ''2024-01-02T08:30:00'',
                          ''type'' \<mapsto> ''text'']\<rparr>"
  let ?col = "\<lparr>coll_metadata = cosine, coll_records = [?r1, ?r2, ?r3]\<rparr>"
  have live: "client ?s (collection ?s) = Some ?col" by (simp add: three_store_def)
  have lim: "(0::int) \<le> 2" by simp
  have recs: "coll_records ?col = [?r1, ?r2, ?r3]" by simp
  have t12: "timestamp (entry_of ?r1) < timestamp (entry_of ?r2)"
    by (simp add: entry_of_def get_or_def)
  have t23: "timestamp (entry_of ?r2) < timestamp (entry_of ?r3)"
    by (simp add: entry_of_def get_or_def)
  from get_recent_memories_newest_first [OF live lim, of None None ?r1 ?r2 ?r3] recs t12 t23
  have "get_recent_memories 2 None None ?s = Inr [entry_of ?r3, entry_of ?r2]" by blast
  then show ?thesis by (simp add: entry_of_def get_or_def)
qed

lemma clear_memory_live:
  assumes "client s (collection s) = Some col"
  shows "clear_memory s = (Inr (), cleared s)"
  using assms
  by (simp add: clear_memory_def delete_collection_def create_collection_def cleared_def)

lemma cleared_live:
  "client (cleared s) (collection (cleared s))
     = Some \<lparr>coll_metadata = cosine, coll_records = []\<rparr>"
  by (simp add: cleared_def)

lemma cleared_idem: "cleared (cleared s) = cleared s"
  by (simp add: cleared_def)

text \<open>
  C9. Through a live handle \<open>clear_memory\<close> returns, and afterwards the collection holds no
  record: the statistics report a total of 0 and empty counts, a search (for which the
  provider yields a vector) returns the empty list, clearing again returns and changes
  nothing, and the collection is there under its name with the cosine metric.
\<close>

theorem clear_memory_empties:
  assumes live: "client s (collection s) = Some col"
      and emb: "get_embedding getenv create query = Inr v"
  shows "\<exists>s'. clear_memory s = (Inr (), s')
           \<and> stored_records s' = []
           \<and> get_memory_stats s' = Inr \<lparr>total_memories = 0, memories_by_role = Map.empty,
                                         memories_by_type = Map.empty\<rparr>
           \<and> search_relevant_memories getenv create dist_of query top_k filter_role
                 filter_type s' = Inr []
           \<and> clear_memory s' = (Inr (), s')
           \<and> collection s' = collection s
           \<and> client s' (collection s) = Some \<lparr>coll_metadata = cosine, coll_records = []\<rparr>"
proof -
  let ?s' = "cleared s"
  have c1: "clear_memory s = (Inr (), ?s')" by (rule clear_memory_live [OF live])
  have l': "client ?s' (collection ?s') = Some \<lparr>coll_metadata = cosine, coll_records = []\<rparr>"
    by (rule cleared_live)
  have st: "stored_records ?s' = []" by (simp add: stored_records_def l')
  have stats: "get_memory_stats ?s' = Inr \<lparr>total_memories = 0, memories_by_role = Map.empty,
                                         memories_by_type = Map.empty\<rparr>"
    by (simp add: get_memory_stats_def coll_get_def l')
  have srch: "search_relevant_memories getenv create dist_of query top_k filter_role
                 filter_type ?s' = Inr []"
    by (simp add: search_relevant_memories_def emb coll_query_def l')
  have c2: "clear_memory ?s' = (Inr (), ?s')"
    using clear_memory_live [OF l'] by (simp add: cleared_idem)
  have nm: "collection ?s' = collection s" by (simp add: cleared_def)
  have cfg: "client ?s' (collection s) = Some \<lparr>coll_metadata = cosine, coll_records = []\<rparr>"
    by (simp add: cleared_def)
  from c1 st stats srch c2 nm cfg show ?thesis by blast
qed

theorem clear_memory_empties_witness:
  "clear_memory \<lparr>client = plain_store, collection = ''shell_assistant''\<rparr>
     = (Inr (), \<lparr>client = [''shell_assistant'' \<mapsto>
                     \<lparr>coll_metadata = cosine, coll_records = []\<rparr>],
                collection = ''shell_assistant''\<rparr>)
   \<and> get_memory_stats \<lparr>client = [''shell_assistant'' \<mapsto>
                     \<lparr>coll_metadata = cosine, coll_records = ([] :: int list memrec list)\<rparr>],
                collection = ''shell_assistant''\<rparr>
       = Inr \<lparr>total_memories = 0, memories_by_role = Map.empty, memories_by_type = Map.empty\<rparr>
   \<and> search_relevant_memories getenv_example create_example dist_example ''hello'' 3
         None None \<lparr>client = [''shell_assistant'' \<mapsto>
                     \<lparr>coll_metadata = cosine, coll_records = []\<rparr>],
                collection = ''shell_assistant''\<rparr> = Inr []
   \<and> clear_memory \<lparr>client = [''shell_assistant'' \<mapsto>
                     \<lparr>coll_metadata = cosine, coll_records = ([] :: int list memrec list)\<rparr>],
                collection = ''shell_assistant''\<rparr>
       = (Inr (), \<lparr>client = [''shell_assistant'' \<mapsto>
                     \<lparr>coll_metadata = cosine, coll_records = []\<rparr>],
                collection = ''shell_assistant''\<rparr>)"
proof -
  let ?s = "\<lparr>client = plain_store, collection = ''shell_assistant''\<rparr>"
  let ?e = "\<lparr>client = [''shell_assistant'' \<mapsto>
                     \<lparr>coll_metadata = cosine, coll_records = ([] :: int list memrec list)\<rparr>],
                collection = ''shell_assistant''\<rparr>"
  have live: "client ?s (collection ?s) = Some \<lparr>coll_metadata = cosine,
      coll_records = [\<lparr>rec_id = ''id1'', rec_embedding = Some [1, 0],
                       rec_document = PStr ''hello'', rec_metadata = meta_user\<rparr>]\<rparr>"
    by (simp add: plain_store_def)
  have emb: "get_embedding getenv_example create_example ''hello'' = Inr [0, 1]"
    by (simp add: get_embedding_def getenv_example_def create_example_def)
  have c: "clear_memory ?s = (Inr (), ?e)"
    by (simp add: clear_memory_def delete_collection_def create_collection_def plain_store_def)
  from clear_memory_empties [OF live emb, of dist_example 3 None None] c
  show ?thesis by auto
qed

end
